theory Spec2Isabelle
  imports Complex_Main "HOL-Library.Product_Lexorder"
begin

section \<open>Data model\<close>

text \<open>
  The order, cart and payment slice of the e-commerce backend: the Mongoose schemas
  (models Product, Payment, Cart, Order), their save and update hooks, and the
  methods of OrderService and CartService that the specification talks about.

  Conventions of the embedding.
  \<^item> An ObjectId is a natural number. A collection that is only read by \<open>_id\<close> is a
    map from ids to documents (products, orders); a collection that is searched by
    another field or only appended to is a list of documents (carts, payments; the
    \<open>_id\<close> of a payment is its position).
  \<^item> JavaScript numbers: quantities and counters are \<open>int\<close>, money is \<open>rat\<close>
    (exact arithmetic, no rounding), dates are milliseconds since the epoch.
  \<^item> A thrown exception is the \<open>Inl\<close> of the outcome. Every operation returns the
    outcome together with the store, because what was written before a \<open>throw\<close>
    stays written.
  \<^item> Status fields are strings, as in the source: an update that bypasses the
    schema's enum can store any string.
  \<^item> Only the fields that the modelled functions read or write are kept
    (no slug, images, shipping address, order number or timestamps other than
    \<open>createdAt\<close>).
\<close>

type_synonym objectId = nat

text \<open>
  \<open>AppError(message, statusCode)\<close> of utils/AppError; \<open>InventoryError(productId,
  requested, available)\<close> is its subclass with status 400; \<open>ValidationError\<close> is
  what Mongoose throws when a schema validator rejects a document; \<open>TypeError\<close> is
  JavaScript's error on reading a property of \<open>null\<close>. Messages built from template
  literals keep their fixed part only.
\<close>

datatype error =
    AppError string nat
  | InventoryError objectId int int
  | ValidationError string
  | TypeError string

record product =
  p_name :: string
  p_price :: rat
  stock :: int
  sold :: int
  isActive :: bool

record orderItem =
  product :: objectId
  oi_name :: string
  quantity :: int
  price :: rat

record paymentInfo =
  pi_id :: objectId
  pi_method :: string
  pi_status :: string
  pi_amount :: rat
  paidAmount :: rat

record order =
  user :: objectId
  orderItems :: "orderItem list"
  orderStatus :: string
  isConfirmed :: bool
  paymentRef :: "objectId option"
  paymentInfo :: paymentInfo
  itemsPrice :: rat
  totalPrice :: rat
  paymentDue :: rat
  createdAt :: int

text \<open>
  A stored Payment document. The schema declares \<open>order\<close>, \<open>user\<close>, \<open>status\<close>
  and the subdocuments \<open>paymentDetails\<close> and \<open>refundDetails\<close>; the only amount
  it declares is \<open>paymentDetails.amount\<close>, kept here as an option (\<open>None\<close> when
  the document has no \<open>paymentDetails\<close>). \<open>order\<close> is absent (\<open>None\<close>) in the
  initial payment of \<open>createOrder\<close> until the order exists.
\<close>

record payment =
  pay_order :: "objectId option"
  pay_user :: objectId
  paymentDetails_amount :: "rat option"
  pay_status :: string

text \<open>
  The object that the order service passes to \<open>Payment.create\<close>:
  \<open>{ user, order, amount, status, type }\<close>.
\<close>

record paymentInput =
  in_order :: "objectId option"
  in_user :: objectId
  in_amount :: rat
  in_status :: string
  in_type :: string

record cartItem =
  productId :: objectId
  ci_name :: string
  ci_quantity :: int
  priceAtAddition :: rat

record cart =
  cid :: objectId
  userId :: "objectId option"
  items :: "cartItem list"

record state =
  products :: "objectId \<rightharpoonup> product"
  orders :: "objectId \<rightharpoonup> order"
  payments :: "payment list"
  carts :: "cart list"

section \<open>Product model\<close>

text \<open>
  \<open>product.save({ validateBeforeSave: false })\<close>: the schema validators are skipped
  (so \<open>stock\<close> may become negative), the pre-save hooks still run; the one that can
  fail is the price check at the end of models/Product.
\<close>

definition Product_save :: "state \<Rightarrow> objectId \<Rightarrow> product \<Rightarrow> error option \<times> state" where
  "Product_save st pid p =
     (if p_price p < 0 then (Some (AppError ''Price cannot be less than 0'' 400), st)
      else (None, st\<lparr>products := (products st)(pid \<mapsto> p)\<rparr>))"

text \<open>
  \<open>Product.findByIdAndUpdate(id, { $inc: { stock: -q, sold: q } })\<close>: no hook of the
  Product schema listens to it and update validators are off, so it only adds.
\<close>

definition Product_inc :: "state \<Rightarrow> objectId \<Rightarrow> int \<Rightarrow> int \<Rightarrow> state" where
  "Product_inc st pid dstock dsold =
     (case products st pid of
        None \<Rightarrow> st
      | Some p \<Rightarrow> st\<lparr>products := (products st)(pid \<mapsto> p\<lparr>stock := stock p + dstock, sold := sold p + dsold\<rparr>)\<rparr>)"

section \<open>Order model\<close>

definition order_statuses :: "string list" where
  "order_statuses = [''processing'', ''shipped'', ''delivered'', ''cancelled'', ''returned'']"

text \<open>The enums of \<open>paymentInfo.method\<close> and \<open>paymentInfo.status\<close> in the Order schema.\<close>

definition paymentInfo_methods :: "string list" where
  "paymentInfo_methods = [''card'', ''paypal'', ''cod'']"

definition paymentInfo_statuses :: "string list" where
  "paymentInfo_statuses = [''unpaid'', ''partial'', ''paid'', ''refunded'']"

text \<open>
  The validation that precedes every \<open>save\<close> of an order, new or loaded: it goes
  over the whole document. Of the fields kept here the schema constrains
  \<open>orderStatus\<close> (enum), every item's \<open>quantity\<close> and \<open>price\<close> (\<open>min\<close>), and
  \<open>paymentInfo.method\<close> and \<open>paymentInfo.status\<close> (enums). Mongoose reports all
  failing paths in one ValidationError; the model names the first.
\<close>

definition Order_validate :: "order \<Rightarrow> error option" where
  "Order_validate ord =
     (if orderStatus ord \<notin> set order_statuses
      then Some (ValidationError ''not a valid enum value for path orderStatus'')
      else if \<exists>i \<in> set (orderItems ord). quantity i < 1
      then Some (ValidationError ''Quantity must be at least 1'')
      else if \<exists>i \<in> set (orderItems ord). price i < 0.01
      then Some (ValidationError ''Price must be at least 0.01'')
      else if pi_method (paymentInfo ord) \<notin> set paymentInfo_methods
      then Some (ValidationError ''not a valid enum value for path paymentInfo.method'')
      else if pi_status (paymentInfo ord) \<notin> set paymentInfo_statuses
      then Some (ValidationError ''not a valid enum value for path paymentInfo.status'')
      else None)"

text \<open>
  The stock hook, \<open>orderSchema.pre('save')\<close>: one asynchronous callback per order item
  under \<open>Promise.all\<close>. Every callback first awaits its \<open>findById\<close>, so all of them
  read the products as they were when the hook started (\<open>st0\<close>) and then write in
  turn; a callback that throws does not stop the others, and the hook fails with
  the first rejection. For items of pairwise different products this is the same
  as running them one after the other.
\<close>

definition reserveItem :: "state \<Rightarrow> state \<Rightarrow> orderItem \<Rightarrow> error option \<times> state" where
  "reserveItem st0 st item =
     (case products st0 (product item) of
        None \<Rightarrow> (Some (AppError ''Product not found'' 404), st)
      | Some p \<Rightarrow>
          if stock p < quantity item
          then (Some (InventoryError (product item) (quantity item) (stock p)), st)
          else Product_save st (product item)
                 (p\<lparr>stock := stock p - quantity item, sold := sold p + quantity item\<rparr>))"

fun reserveAll :: "state \<Rightarrow> state \<Rightarrow> orderItem list \<Rightarrow> error option \<times> state" where
  "reserveAll st0 st [] = (None, st)"
| "reserveAll st0 st (item # rest) =
     (case reserveItem st0 st item of
        (e, st1) \<Rightarrow>
          (case reserveAll st0 st1 rest of
             (e', st2) \<Rightarrow> ((case e of Some x \<Rightarrow> Some x | None \<Rightarrow> e'), st2)))"

definition reserveStock :: "state \<Rightarrow> orderItem list \<Rightarrow> error option \<times> state" where
  "reserveStock st its = reserveAll st st its"

text \<open>The restock callback of \<open>orderSchema.pre('findOneAndUpdate')\<close>, same shape.\<close>

definition restockItem :: "state \<Rightarrow> state \<Rightarrow> orderItem \<Rightarrow> error option \<times> state" where
  "restockItem st0 st item =
     (case products st0 (product item) of
        None \<Rightarrow> (Some (AppError ''Product not found'' 404), st)
      | Some p \<Rightarrow>
          Product_save st (product item)
            (p\<lparr>stock := stock p + quantity item, sold := sold p - quantity item\<rparr>))"

fun restockAll :: "state \<Rightarrow> state \<Rightarrow> orderItem list \<Rightarrow> error option \<times> state" where
  "restockAll st0 st [] = (None, st)"
| "restockAll st0 st (item # rest) =
     (case restockItem st0 st item of
        (e, st1) \<Rightarrow>
          (case restockAll st0 st1 rest of
             (e', st2) \<Rightarrow> ((case e of Some x \<Rightarrow> Some x | None \<Rightarrow> e'), st2)))"

text \<open>
  An update document as the Payment hook sends it:
  \<open>{ 'paymentInfo.status': s, orderStatus: t }\<close>, where \<open>t\<close> may be \<open>undefined\<close>.
\<close>

record orderUpdate =
  upd_paymentInfo_status :: string
  upd_orderStatus :: "string option"

text \<open>
  \<open>Order.findByIdAndUpdate(id, update)\<close>. The query hook
  \<open>orderSchema.pre('findOneAndUpdate')\<close> runs first: it fails when no order matches,
  and it restocks when the update sets \<open>orderStatus\<close> to \<open>'cancelled'\<close> on an order
  that is not cancelled yet. Then the update is applied; update validators are
  off by default, so the status written need not be in the schema's enum. An
  \<open>undefined\<close> id matches no order.
\<close>

definition Order_findByIdAndUpdate ::
    "state \<Rightarrow> objectId option \<Rightarrow> orderUpdate \<Rightarrow> error option \<times> state" where
  "Order_findByIdAndUpdate st oid upd =
     (case (case oid of None \<Rightarrow> None
                      | Some i \<Rightarrow> (case orders st i of None \<Rightarrow> None | Some found \<Rightarrow> Some (i, found))) of
        None \<Rightarrow> (Some (AppError ''Order not found'' 404), st)
      | Some (i, ord) \<Rightarrow>
          (case (if upd_orderStatus upd = Some ''cancelled'' \<and> orderStatus ord \<noteq> ''cancelled''
                 then restockAll st st (orderItems ord) else (None, st)) of
             (Some e, st1) \<Rightarrow> (Some e, st1)
           | (None, st1) \<Rightarrow>
               (None, st1\<lparr>orders := (orders st1)(i \<mapsto>
                  ord\<lparr>paymentInfo := (paymentInfo ord)\<lparr>pi_status := upd_paymentInfo_status upd\<rparr>,
                       orderStatus := (case upd_orderStatus upd of None \<Rightarrow> orderStatus ord | Some s \<Rightarrow> s)\<rparr>)\<rparr>)))"

text \<open>
  \<open>order.save()\<close> on a document that was loaded from the store. Validation runs
  before the pre-save hooks; both pre-save hooks of the Order schema return at
  once because the document is not new. In particular the restock hook, which
  listens to \<open>findOneAndUpdate\<close>, does not run.
\<close>

definition Order_save :: "state \<Rightarrow> objectId \<Rightarrow> order \<Rightarrow> error option \<times> state" where
  "Order_save st oid ord =
     (case Order_validate ord of
        Some e \<Rightarrow> (Some e, st)
      | None \<Rightarrow> (None, st\<lparr>orders := (orders st)(oid \<mapsto> ord)\<rparr>))"

text \<open>
  \<open>Order.create(doc)\<close>: validation, then the stock hook (the document is new and
  has \<open>orderItems\<close>), then the insert under the generated id \<open>oid\<close>. When the hook
  fails the order is not inserted, but the products that other callbacks saved
  stay as they are.
\<close>

definition Order_create :: "state \<Rightarrow> objectId \<Rightarrow> order \<Rightarrow> error option \<times> state" where
  "Order_create st oid ord =
     (case Order_validate ord of
        Some e \<Rightarrow> (Some e, st)
      | None \<Rightarrow>
          (case reserveStock st (orderItems ord) of
             (Some e, st1) \<Rightarrow> (Some e, st1)
           | (None, st1) \<Rightarrow> (None, st1\<lparr>orders := (orders st1)(oid \<mapsto> ord)\<rparr>)))"

text \<open>\<open>Order.findOne({ _id: orderId, user: userId })\<close>.\<close>

definition Order_findOne :: "state \<Rightarrow> objectId \<Rightarrow> objectId \<Rightarrow> order option" where
  "Order_findOne st orderId uid =
     (case orders st orderId of
        None \<Rightarrow> None
      | Some ord \<Rightarrow> if user ord = uid then Some ord else None)"

section \<open>Payment model\<close>

definition payment_statuses :: "string list" where
  "payment_statuses = [''pending'', ''processing'', ''paid'', ''failed'', ''refunded'', ''disputed'']"

text \<open>
  The schema validators of Payment that bear on the fields kept here: \<open>order\<close> is
  required (\<open>'Payment must belong to an order'\<close>) and \<open>status\<close> is an enum.
\<close>

definition Payment_validate :: "payment \<Rightarrow> error option" where
  "Payment_validate p =
     (if pay_order p = None then Some (ValidationError ''Payment must belong to an order'')
      else if pay_status p \<notin> set payment_statuses then Some (ValidationError ''Invalid payment status'')
      else None)"

text \<open>
  \<open>paymentSchema.pre('save')\<close>, when \<open>status\<close> is modified (as it is in every
  \<open>Payment.create\<close> that passes a status): it copies the payment's status into the
  order and sets the order's \<open>orderStatus\<close> to \<open>'processing'\<close> for a paid payment and
  to \<open>'refunded'\<close> for a refunded one; otherwise it passes \<open>this.orderStatus\<close>, which
  a payment does not have.
\<close>

definition Payment_preSave :: "state \<Rightarrow> payment \<Rightarrow> error option \<times> state" where
  "Payment_preSave st p =
     Order_findByIdAndUpdate st (pay_order p)
       \<lparr>upd_paymentInfo_status = pay_status p,
        upd_orderStatus =
          (if pay_status p = ''paid'' then Some ''processing''
           else if pay_status p = ''refunded'' then Some ''refunded''
           else None)\<rparr>"

text \<open>
  The document that Mongoose builds from the object given to \<open>Payment.create\<close>.
  The schema is strict (the default), so the keys it does not declare,
  \<open>amount\<close> and \<open>type\<close>, are dropped; no \<open>paymentDetails\<close> is given.
\<close>

definition Payment_new :: "paymentInput \<Rightarrow> payment" where
  "Payment_new inp =
     \<lparr>pay_order = in_order inp, pay_user = in_user inp, paymentDetails_amount = None,
      pay_status = in_status inp\<rparr>"

text \<open>\<open>Payment.create(obj)\<close>: validation, the pre-save hook, the insert. Returns the new id.\<close>

definition Payment_create :: "state \<Rightarrow> paymentInput \<Rightarrow> (error + objectId) \<times> state" where
  "Payment_create st inp =
     (let p = Payment_new inp in
      case Payment_validate p of
        Some e \<Rightarrow> (Inl e, st)
      | None \<Rightarrow>
          (case Payment_preSave st p of
             (Some e, st1) \<Rightarrow> (Inl e, st1)
           | (None, st1) \<Rightarrow> (Inr (length (payments st1)), st1\<lparr>payments := payments st1 @ [p]\<rparr>)))"

text \<open>
  \<open>payment.save()\<close> after \<open>payment.order = order._id\<close>: \<open>status\<close> is not modified, so
  the hook does nothing.
\<close>

definition Payment_save :: "state \<Rightarrow> objectId \<Rightarrow> payment \<Rightarrow> error option \<times> state" where
  "Payment_save st pid p =
     (case Payment_validate p of
        Some e \<Rightarrow> (Some e, st)
      | None \<Rightarrow> (None, st\<lparr>payments := (payments st)[pid := p]\<rparr>))"

section \<open>OrderService: cancelOrder and completePayment\<close>

text \<open>
  \<open>cancelOrder(userId, orderId)\<close>; \<open>now\<close> is \<open>Date.now()\<close>. The service also sets
  \<open>cancelledAt\<close> and \<open>isCancelled\<close>, which are not paths of the schema (it declares
  \<open>canceledAt\<close> and \<open>isCanceled\<close>) and are not stored. Returns \<open>refundAmount\<close>.
\<close>

definition cancelOrder :: "int \<Rightarrow> state \<Rightarrow> objectId \<Rightarrow> objectId \<Rightarrow> (error + rat) \<times> state" where
  "cancelOrder now st uid orderId =
     (case Order_findOne st orderId uid of
        None \<Rightarrow> (Inl (AppError ''Order not found'' 404), st)
      | Some ord \<Rightarrow>
          if orderStatus ord = ''cancelled'' then (Inl (AppError ''Order already cancelled'' 400), st)
          else
            let timeElapsed = now - createdAt ord;
                hoursElapsed = rat_of_int timeElapsed / (1000 * 60 * 60)
            in if hoursElapsed > 24
               then (Inl (AppError ''Order cancellation period has expired'' 403), st)
               else
                 let ord' = ord\<lparr>orderStatus := ''cancelled''\<rparr> in
                 (case Order_save st orderId ord' of
                    (Some e, st1) \<Rightarrow> (Inl e, st1)
                  | (None, st1) \<Rightarrow>
                      let refundAmount = pi_amount (paymentInfo ord') * 0.98 in
                      (case Payment_create st1
                              \<lparr>in_order = Some orderId, in_user = uid, in_amount = refundAmount,
                               in_status = ''refunded'', in_type = ''refund''\<rparr> of
                         (Inl e, st2) \<Rightarrow> (Inl e, st2)
                       | (Inr _, st2) \<Rightarrow> (Inr refundAmount, st2))))"

text \<open>\<open>completePayment(userId, orderId)\<close>. Returns the amount paid.\<close>

definition completePayment :: "state \<Rightarrow> objectId \<Rightarrow> objectId \<Rightarrow> (error + rat) \<times> state" where
  "completePayment st uid orderId =
     (case Order_findOne st orderId uid of
        None \<Rightarrow> (Inl (AppError ''Order not found'' 404), st)
      | Some ord \<Rightarrow>
          if orderStatus ord \<noteq> ''delivered'' then (Inl (AppError ''Order not delivered yet'' 400), st)
          else if paymentDue ord = 0 then (Inl (AppError ''Already fully paid'' 400), st)
          else
            let remaining = paymentDue ord;
                ord' = ord\<lparr>paymentDue := 0,
                          paymentInfo := (paymentInfo ord)\<lparr>paidAmount := paidAmount (paymentInfo ord) + remaining\<rparr>\<rparr>
            in (case Order_save st orderId ord' of
                  (Some e, st1) \<Rightarrow> (Inl e, st1)
                | (None, st1) \<Rightarrow>
                    (case Payment_create st1
                            \<lparr>in_order = Some orderId, in_user = uid, in_amount = remaining,
                             in_status = ''paid'', in_type = ''final''\<rparr> of
                       (Inl e, st2) \<Rightarrow> (Inl e, st2)
                     | (Inr _, st2) \<Rightarrow> (Inr remaining, st2))))"

section \<open>Cart model\<close>

text \<open>
  The schema validators of a cart item (\<open>min\<close> of \<open>quantity\<close> and of
  \<open>priceAtAddition\<close>), which run before the pre-save hooks.
\<close>

definition Cart_validate :: "cartItem list \<Rightarrow> error option" where
  "Cart_validate its =
     (if \<exists>i \<in> set its. ci_quantity i < 1 then Some (ValidationError ''Quantity must be at least 1'')
      else if \<exists>i \<in> set its. priceAtAddition i < 0.01 then Some (ValidationError ''Price must be at least 0.01'')
      else None)"

text \<open>
  \<open>cartSchema.pre('save')\<close>: every item's product must exist and have at least the
  item's quantity in stock. A \<open>for\<close> loop, so it stops at the first failure.
\<close>

fun Cart_preSave :: "state \<Rightarrow> cartItem list \<Rightarrow> error option" where
  "Cart_preSave st [] = None"
| "Cart_preSave st (item # rest) =
     (case products st (productId item) of
        None \<Rightarrow> Some (AppError ''Product not found'' 404)
      | Some p \<Rightarrow>
          if stock p < ci_quantity item then Some (AppError ''Insufficient stock'' 400)
          else Cart_preSave st rest)"

definition Cart_check :: "state \<Rightarrow> cartItem list \<Rightarrow> error option" where
  "Cart_check st its =
     (case Cart_validate its of Some e \<Rightarrow> Some e | None \<Rightarrow> Cart_preSave st its)"

text \<open>\<open>Cart.findById(id)\<close> and \<open>Cart.findOne({ userId })\<close>.\<close>

definition Cart_findById :: "state \<Rightarrow> objectId \<Rightarrow> cart option" where
  "Cart_findById st i = find (\<lambda>c. cid c = i) (carts st)"

definition Cart_findOne :: "state \<Rightarrow> objectId \<Rightarrow> cart option" where
  "Cart_findOne st u = find (\<lambda>c. userId c = Some u) (carts st)"

text \<open>
  \<open>Cart.create(doc)\<close> inserts a new document (its generated id is \<open>cid c\<close>);
  \<open>cart.save()\<close> replaces the stored document of the same id (ids are unique in
  a collection); \<open>Cart.findByIdAndDelete(id)\<close> removes it. The first two run the
  checks above.
\<close>

definition Cart_create :: "state \<Rightarrow> cart \<Rightarrow> error option \<times> state" where
  "Cart_create st c =
     (case Cart_check st (items c) of
        Some e \<Rightarrow> (Some e, st)
      | None \<Rightarrow> (None, st\<lparr>carts := carts st @ [c]\<rparr>))"

definition Cart_save :: "state \<Rightarrow> cart \<Rightarrow> error option \<times> state" where
  "Cart_save st c =
     (case Cart_check st (items c) of
        Some e \<Rightarrow> (Some e, st)
      | None \<Rightarrow> (None, st\<lparr>carts := map (\<lambda>d. if cid d = cid c then c else d) (carts st)\<rparr>))"

definition Cart_findByIdAndDelete :: "state \<Rightarrow> objectId \<Rightarrow> state" where
  "Cart_findByIdAndDelete st i = st\<lparr>carts := filter (\<lambda>c. cid c \<noteq> i) (carts st)\<rparr>"

text \<open>\<open>cartSchema.methods.findItem\<close>: the first item of the given product.\<close>

definition findItem :: "cartItem list \<Rightarrow> objectId \<Rightarrow> cartItem option" where
  "findItem its pid = find (\<lambda>item. productId item = pid) its"

section \<open>CartService\<close>

text \<open>
  \<open>getOrCreateCart(userId, sessionId)\<close>: the user's cart, else the cart whose id is
  the session id, created empty when there is none. \<open>newCid\<close> is the id that a
  created cart gets.
\<close>

definition getOrCreateCart ::
    "objectId \<Rightarrow> state \<Rightarrow> objectId option \<Rightarrow> objectId option \<Rightarrow> cart \<times> state" where
  "getOrCreateCart newCid st uid sessionId =
     (case uid of
        Some u \<Rightarrow>
          (case Cart_findOne st u of
             Some c \<Rightarrow> (c, st)
           | None \<Rightarrow>
               (let c = \<lparr>cid = newCid, userId = Some u, items = []\<rparr>
                in (c, st\<lparr>carts := carts st @ [c]\<rparr>)))
      | None \<Rightarrow>
          (case (case sessionId of None \<Rightarrow> None | Some s \<Rightarrow> Cart_findById st s) of
             Some c \<Rightarrow> (c, st)
           | None \<Rightarrow>
               (let c = \<lparr>cid = newCid, userId = None, items = []\<rparr>
                in (c, st\<lparr>carts := carts st @ [c]\<rparr>))))"

text \<open>\<open>Array.prototype.findIndex\<close>; \<open>None\<close> stands for \<open>-1\<close>.\<close>

fun findIndex :: "('a \<Rightarrow> bool) \<Rightarrow> 'a list \<Rightarrow> nat option" where
  "findIndex P [] = None"
| "findIndex P (x # xs) =
     (if P x then Some 0 else (case findIndex P xs of None \<Rightarrow> None | Some i \<Rightarrow> Some (Suc i)))"

text \<open>
  \<open>updateCartItemQuantity(userId, sessionId, productId, quantity)\<close>. The first guard
  is \<open>!quantity || quantity < 0\<close>, and \<open>!0\<close> is true. \<open>splice(i, 1)\<close> removes the
  item at index \<open>i\<close>.
\<close>

definition updateCartItemQuantity ::
    "objectId \<Rightarrow> state \<Rightarrow> objectId option \<Rightarrow> objectId option \<Rightarrow> objectId \<Rightarrow> int
      \<Rightarrow> (error + cart) \<times> state" where
  "updateCartItemQuantity newCid st uid sessionId pid qty =
     (if qty = 0 \<or> qty < 0 then (Inl (AppError ''Invalid quantity'' 400), st)
      else
        (case getOrCreateCart newCid st uid sessionId of
           (c, st1) \<Rightarrow>
             (case findIndex (\<lambda>item. productId item = pid) (items c) of
                None \<Rightarrow> (Inl (AppError ''Item not found in cart'' 404), st1)
              | Some itemIndex \<Rightarrow>
                  (case products st1 pid of
                     None \<Rightarrow> (Inl (AppError ''Product not found'' 404), st1)
                   | Some p \<Rightarrow>
                       let newQuantity = min qty (stock p);
                           c' = (if newQuantity = 0
                                 then c\<lparr>items := take itemIndex (items c) @ drop (Suc itemIndex) (items c)\<rparr>
                                 else c\<lparr>items := (items c)[itemIndex :=
                                          (items c ! itemIndex)\<lparr>ci_quantity := newQuantity\<rparr>]\<rparr>)
                       in (case Cart_save st1 c' of
                             (Some e, st2) \<Rightarrow> (Inl e, st2)
                           | (None, st2) \<Rightarrow> (Inr c', st2))))))"

text \<open>
  One round of the \<open>forEach\<close> of \<open>mergeCarts\<close>: the first item of the user cart
  with the guest item's product gets the guest quantity added; when there is
  none, the guest item is pushed.
\<close>

fun mergeItem :: "cartItem list \<Rightarrow> cartItem \<Rightarrow> cartItem list" where
  "mergeItem [] g = [g]"
| "mergeItem (u # us) g =
     (if productId u = productId g
      then u\<lparr>ci_quantity := ci_quantity u + ci_quantity g\<rparr> # us
      else u # mergeItem us g)"

datatype mergeResult = NoGuestCart | GuestCartEmpty | Merged cart

text \<open>
  \<open>mergeCarts(userId, guestCartId)\<close>. The results stand for the messages
  \<open>'No guest cart to merge'\<close>, \<open>'Guest cart is empty'\<close> and
  \<open>'Cart merged successfully'\<close> (with the user cart).
\<close>

definition mergeCarts ::
    "objectId \<Rightarrow> state \<Rightarrow> objectId \<Rightarrow> objectId option \<Rightarrow> (error + mergeResult) \<times> state" where
  "mergeCarts newCid st uid guestCartId =
     (case guestCartId of
        None \<Rightarrow> (Inr NoGuestCart, st)
      | Some gid \<Rightarrow>
          (case Cart_findById st gid of
             None \<Rightarrow> (Inr GuestCartEmpty, st)
           | Some guestCart \<Rightarrow>
               if items guestCart = [] then (Inr GuestCartEmpty, st)
               else
                 (case Cart_findOne st uid of
                    None \<Rightarrow>
                      (let userCart = \<lparr>cid = newCid, userId = Some uid, items = items guestCart\<rparr>
                       in (case Cart_create st userCart of
                             (Some e, st1) \<Rightarrow> (Inl e, st1)
                           | (None, st1) \<Rightarrow> (Inr (Merged userCart), Cart_findByIdAndDelete st1 gid)))
                  | Some userCart0 \<Rightarrow>
                      (let userCart = userCart0\<lparr>items := foldl mergeItem (items userCart0) (items guestCart)\<rparr>
                       in (case Cart_save st userCart of
                             (Some e, st1) \<Rightarrow> (Inl e, st1)
                           | (None, st1) \<Rightarrow> (Inr (Merged userCart), Cart_findByIdAndDelete st1 gid))))))"

section \<open>OrderService: createOrder\<close>

text \<open>
  The \<open>paymentInfo\<close> argument of \<open>createOrder\<close>: the payment method and the amount
  that the caller declares to pay upfront (\<open>paymentInfo.paidAmount\<close> of
  \<open>createOrderSchema\<close>).
\<close>

record paymentRequest =
  req_method :: string
  req_paidAmount :: rat

text \<open>
  The \<open>map\<close> over the items of the populated cart; a \<open>throw\<close> inside ends it.
\<close>

fun cartProducts :: "state \<Rightarrow> cartItem list \<Rightarrow> error + orderItem list" where
  "cartProducts st [] = Inr []"
| "cartProducts st (item # rest) =
     (case products st (productId item) of
        None \<Rightarrow> Inl (AppError ''Product not available'' 400)
      | Some p \<Rightarrow>
          if \<not> isActive p then Inl (AppError ''Product not available'' 400)
          else if stock p < ci_quantity item then Inl (AppError ''Insufficient stock'' 400)
          else
            (case cartProducts st rest of
               Inl e \<Rightarrow> Inl e
             | Inr its \<Rightarrow>
                 Inr (\<lparr>product = productId item, oi_name = p_name p,
                       quantity = ci_quantity item, price = priceAtAddition item\<rparr> # its)))"

text \<open>
  The loop after \<open>Order.create\<close> that "updates product stock and sold count" with
  \<open>$inc\<close>. For a missing product the message expression reads \<open>product.name\<close> of
  \<open>null\<close>, a TypeError.
\<close>

fun stockLoop :: "state \<Rightarrow> orderItem list \<Rightarrow> error option \<times> state" where
  "stockLoop st [] = (None, st)"
| "stockLoop st (item # rest) =
     (case products st (product item) of
        None \<Rightarrow> (Some (TypeError ''Cannot read properties of null''), st)
      | Some p \<Rightarrow>
          if \<not> isActive p then (Some (AppError ''Product not available'' 400), st)
          else stockLoop (Product_inc st (product item) (- quantity item) (quantity item)) rest)"

definition totalAmount :: "orderItem list \<Rightarrow> rat" where
  "totalAmount its = foldl (\<lambda>sum item. sum + price item * rat_of_int (quantity item)) 0 its"

text \<open>
  \<open>createOrder({ userId, products, cartId, shippingAddress, paymentInfo, ... })\<close>;
  \<open>now\<close> is the default of \<open>createdAt\<close> and \<open>oid\<close> the id generated for the order.
  Returns the id of the order.
\<close>

definition createOrder ::
    "int \<Rightarrow> objectId \<Rightarrow> state \<Rightarrow> objectId \<Rightarrow> orderItem list \<Rightarrow> objectId option \<Rightarrow> paymentRequest
      \<Rightarrow> (error + objectId) \<times> state" where
  "createOrder now oid st uid prods0 cartId pinfo =
     (case (if prods0 = [] \<and> cartId \<noteq> None
            then (case (case cartId of None \<Rightarrow> None | Some c \<Rightarrow> Cart_findById st c) of
                    None \<Rightarrow> Inl (AppError ''Cart is empty or not found'' 404)
                  | Some c \<Rightarrow>
                      if items c = [] then Inl (AppError ''Cart is empty or not found'' 404)
                      else cartProducts st (items c))
            else Inr prods0) of
        Inl e \<Rightarrow> (Inl e, st)
      | Inr prods \<Rightarrow>
          if prods = [] then (Inl (AppError ''No products provided'' 400), st)
          else
            let total = totalAmount prods;
                initialPaymentAmount = total * 0.5;
                pay = \<lparr>in_order = None, in_user = uid, in_amount = initialPaymentAmount,
                       in_status = ''paid'', in_type = ''initial''\<rparr>
            in (case Payment_create st pay of
                  (Inl e, st1) \<Rightarrow> (Inl e, st1)
                | (Inr payId, st1) \<Rightarrow>
                    (case Order_create st1 oid
                            \<lparr>user = uid, orderItems = prods, orderStatus = ''pending'',
                             isConfirmed = True, paymentRef = Some payId,
                             paymentInfo = \<lparr>pi_id = payId, pi_method = ''card'', pi_status = ''paid'',
                                            pi_amount = initialPaymentAmount,
                                            paidAmount = initialPaymentAmount\<rparr>,
                             itemsPrice = total, totalPrice = total,
                             paymentDue = total - initialPaymentAmount, createdAt = now\<rparr> of
                       (Some e, st2) \<Rightarrow> (Inl e, st2)
                     | (None, st2) \<Rightarrow>
                         (case stockLoop st2 prods of
                            (Some e, st3) \<Rightarrow> (Inl e, st3)
                          | (None, st3) \<Rightarrow>
                              (case Payment_save st3 payId ((Payment_new pay)\<lparr>pay_order := Some oid\<rparr>) of
                                 (Some e, st4) \<Rightarrow> (Inl e, st4)
                               | (None, st4) \<Rightarrow>
                                   (Inr oid,
                                    (case cartId of
                                       None \<Rightarrow> st4
                                     | Some c \<Rightarrow> Cart_findByIdAndDelete st4 c)))))))"

section \<open>Monthly sales\<close>

text \<open>
  The operators \<open>$year\<close> and \<open>$month\<close> of the aggregation pipeline: year and month
  (1 to 12) of a date in UTC, computed from the milliseconds since the epoch by
  the usual conversion of a day number to a date of the Gregorian calendar.
\<close>

definition utcYearMonth :: "int \<Rightarrow> int \<times> int" where
  "utcYearMonth ms =
     (let z = ms div 86400000 + 719468;
          era = z div 146097;
          doe = z - era * 146097;
          yoe = (doe - doe div 1460 + doe div 36524 - doe div 146096) div 365;
          doy = doe - (365 * yoe + yoe div 4 - yoe div 100);
          mp = (5 * doy + 2) div 153;
          m = (if mp < 10 then mp + 3 else mp - 9)
      in (yoe + era * 400 + (if m \<le> 2 then 1 else 0), m))"

text \<open>
  The stages \<open>$group\<close> (sum of \<open>totalPrice\<close> and number of documents for each value
  of the key) and \<open>$sort\<close> (ascending in the key).
\<close>

definition groupRows :: "(order \<Rightarrow> 'k::linorder) \<Rightarrow> order list \<Rightarrow> ('k \<times> rat \<times> nat) list" where
  "groupRows key docs =
     map (\<lambda>k. (k, sum_list (map totalPrice (filter (\<lambda>d. key d = k) docs)),
                  length (filter (\<lambda>d. key d = k) docs)))
         (sort (remdups (map key docs)))"

text \<open>
  \<open>orderSchema.statics.getMonthlySales\<close> over the documents of the collection:
  it matches \<open>orderStatus: 'delivered'\<close>, groups by (year, month) and projects
  \<open>year\<close>, \<open>month\<close>, \<open>totalSales\<close>, \<open>count\<close>.
\<close>

record monthlySalesRow =
  year :: int
  month :: int
  totalSales :: rat
  count :: nat

definition Order_getMonthlySales :: "order list \<Rightarrow> monthlySalesRow list" where
  "Order_getMonthlySales docs =
     map (\<lambda>(k, t, c). \<lparr>year = fst k, month = snd k, totalSales = t, count = c\<rparr>)
       (groupRows (\<lambda>d. utcYearMonth (createdAt d))
          (filter (\<lambda>d. orderStatus d = ''delivered'') docs))"

text \<open>
  \<open>OrderService.getMonthlySales\<close>: it matches \<open>paymentDue: 0\<close>, groups by the month
  alone and returns \<open>_id\<close> (the month), \<open>total\<close>, \<open>count\<close>.
\<close>

record serviceSalesRow =
  sr_id :: int
  total :: rat
  sr_count :: nat

definition getMonthlySales :: "order list \<Rightarrow> serviceSalesRow list" where
  "getMonthlySales docs =
     map (\<lambda>(k, t, c). \<lparr>sr_id = k, total = t, sr_count = c\<rparr>)
       (groupRows (\<lambda>d. snd (utcYearMonth (createdAt d)))
          (filter (\<lambda>d. paymentDue d = 0) docs))"

section \<open>The scenario of the specification\<close>

text \<open>
  The example of the specification: a product of price 50 and stock 10, of which
  user 1 orders 3 with an initial payment of 75. \<open>ex_fresh\<close> is the store before
  the order, with the 3 units in the user's cart; \<open>ex_state\<close> is the store the
  specification describes after the order was placed (stock 7, sold 3, one
  initial payment, \<open>paymentDue = 75\<close>); the order was created at time 0.
\<close>

definition ex_cart :: cart where
  "ex_cart =
     \<lparr>cid = 9, userId = Some 1,
      items = [\<lparr>productId = 1, ci_name = ''Widget'', ci_quantity = 3, priceAtAddition = 50\<rparr>]\<rparr>"

text \<open>The store before the order is placed: stock 10, nothing sold, 3 units in the cart.\<close>

definition ex_fresh :: state where
  "ex_fresh =
     \<lparr>products = [1 \<mapsto> \<lparr>p_name = ''Widget'', p_price = 50, stock = 10, sold = 0, isActive = True\<rparr>],
      orders = Map.empty,
      payments = [],
      carts = [ex_cart]\<rparr>"

definition ex_item :: orderItem where
  "ex_item = \<lparr>product = 1, oi_name = ''Widget'', quantity = 3, price = 50\<rparr>"

definition ex_order :: order where
  "ex_order =
     \<lparr>user = 1, orderItems = [ex_item], orderStatus = ''processing'', isConfirmed = True,
      paymentRef = Some 0,
      paymentInfo = \<lparr>pi_id = 0, pi_method = ''card'', pi_status = ''paid'', pi_amount = 75, paidAmount = 75\<rparr>,
      itemsPrice = 150, totalPrice = 150, paymentDue = 75, createdAt = 0\<rparr>"

definition ex_payment :: payment where
  "ex_payment =
     \<lparr>pay_order = Some 5, pay_user = 1, paymentDetails_amount = Some 75, pay_status = ''paid''\<rparr>"

definition ex_state :: state where
  "ex_state =
     \<lparr>products = [1 \<mapsto> \<lparr>p_name = ''Widget'', p_price = 50, stock = 7, sold = 3, isActive = True\<rparr>],
      orders = [5 \<mapsto> ex_order],
      payments = [ex_payment],
      carts = []\<rparr>"

text \<open>The same store once an administrator has marked the order as delivered.\<close>

definition ex_delivered :: state where
  "ex_delivered = ex_state\<lparr>orders := [5 \<mapsto> ex_order\<lparr>orderStatus := ''delivered''\<rparr>]\<rparr>"

text \<open>
  Collections of orders for the sales reports: one delivered order that still
  owes 75; two delivered and paid orders of January 1970 and January 1971;
  two delivered and paid orders of January and February 1970 beside an order
  that is neither delivered nor paid.
\<close>

definition ex_unpaid :: "order list" where
  "ex_unpaid = [ex_order\<lparr>orderStatus := ''delivered''\<rparr>]"

definition ex_two_years :: "order list" where
  "ex_two_years =
     [ex_order\<lparr>orderStatus := ''delivered'', paymentDue := 0\<rparr>,
      ex_order\<lparr>orderStatus := ''delivered'', paymentDue := 0, createdAt := 31536000000\<rparr>]"

definition ex_one_year :: "order list" where
  "ex_one_year =
     [ex_order\<lparr>orderStatus := ''delivered'', paymentDue := 0\<rparr>,
      ex_order,
      ex_order\<lparr>orderStatus := ''delivered'', paymentDue := 0, createdAt := 2678400000\<rparr>]"

text \<open>
  A store with two products (stock 10 and 5), the cart of user 1 (3 units of
  product 1) and three guest carts: cart 6 with 2 units of product 1 and 1 unit
  of product 2, cart 7 without items, cart 8 with 8 units of product 1.
\<close>

definition ex_guest6 :: cart where
  "ex_guest6 =
     \<lparr>cid = 6, userId = None,
      items = [\<lparr>productId = 1, ci_name = ''Widget'', ci_quantity = 2, priceAtAddition = 50\<rparr>,
               \<lparr>productId = 2, ci_name = ''Gadget'', ci_quantity = 1, priceAtAddition = 20\<rparr>]\<rparr>"

definition ex_guest7 :: cart where
  "ex_guest7 = \<lparr>cid = 7, userId = None, items = []\<rparr>"

definition ex_guest8 :: cart where
  "ex_guest8 =
     \<lparr>cid = 8, userId = None,
      items = [\<lparr>productId = 1, ci_name = ''Widget'', ci_quantity = 8, priceAtAddition = 50\<rparr>]\<rparr>"

definition ex_guests :: state where
  "ex_guests =
     \<lparr>products = [1 \<mapsto> \<lparr>p_name = ''Widget'', p_price = 50, stock = 10, sold = 0, isActive = True\<rparr>,
                  2 \<mapsto> \<lparr>p_name = ''Gadget'', p_price = 20, stock = 5, sold = 0, isActive = True\<rparr>],
      orders = Map.empty,
      payments = [],
      carts = [ex_cart, ex_guest6, ex_guest7, ex_guest8]\<rparr>"

section \<open>Properties of cancelOrder and completePayment\<close>

text \<open>
  Claim C8. An order that is not cancelled and whose \<open>createdAt\<close> lies more than 24
  hours (86400000 ms) before \<open>now\<close>: \<open>cancelOrder\<close>, called by the owner, throws
  \<open>AppError('Order cancellation period has expired', 403)\<close> and the store (orders,
  products, payments, carts) is exactly the one before the call.
\<close>

theorem cancelOrder_window_expired:
  assumes "orders st orderId = Some ord" and "user ord = uid"
    and "orderStatus ord \<noteq> ''cancelled''"
    and "now - createdAt ord > 24 * 60 * 60 * 1000"
  shows "cancelOrder now st uid orderId =
           (Inl (AppError ''Order cancellation period has expired'' 403), st)"
proof -
  have "rat_of_int (now - createdAt ord) > rat_of_int (24 * 60 * 60 * 1000)"
    using assms(4) by (simp only: of_int_less_iff)
  then have "rat_of_int (now - createdAt ord) / (1000 * 60 * 60) > 24"
    by simp
  then show ?thesis
    using assms(1-3) by (simp add: cancelOrder_def Order_findOne_def Let_def)
qed

theorem cancelOrder_window_expired_witness:
  "cancelOrder 90000000 ex_state 1 5 =
     (Inl (AppError ''Order cancellation period has expired'' 403), ex_state)"
  using cancelOrder_window_expired [of ex_state 5 ex_order 1 90000000]
  by (simp add: ex_state_def ex_order_def)

text \<open>
  Claim C9. Both operations look the order up by the pair (orderId, userId) and
  take no role: for a caller who is not the user of the order, whoever they are,
  both throw \<open>AppError('Order not found', 404)\<close>, the error they throw for an id
  that matches no order, and change nothing.
\<close>

theorem non_owner_gets_not_found:
  assumes "\<forall>ord. orders st orderId = Some ord \<longrightarrow> user ord \<noteq> uid"
  shows "cancelOrder now st uid orderId = (Inl (AppError ''Order not found'' 404), st)
       \<and> completePayment st uid orderId = (Inl (AppError ''Order not found'' 404), st)"
proof (cases "orders st orderId")
  case None
  then show ?thesis
    by (simp add: cancelOrder_def completePayment_def Order_findOne_def)
next
  case (Some ord)
  with assms have "user ord \<noteq> uid" by simp
  with Some show ?thesis
    by (simp add: cancelOrder_def completePayment_def Order_findOne_def)
qed

theorem non_owner_gets_not_found_witness:
  "orders ex_state 5 = Some ex_order \<and> user ex_order \<noteq> 2
   \<and> cancelOrder 1000 ex_state 2 5 = (Inl (AppError ''Order not found'' 404), ex_state)
   \<and> completePayment ex_state 2 5 = (Inl (AppError ''Order not found'' 404), ex_state)"
  using non_owner_gets_not_found [of ex_state 5 2 1000]
  by (simp add: ex_state_def ex_order_def)

text \<open>
  The two guards of \<open>completePayment\<close>, in the order of the source: an order of
  the caller that is not delivered is rejected with \<open>'Order not delivered yet'\<close>,
  whatever its \<open>paymentDue\<close>; a delivered one with \<open>paymentDue = 0\<close> is rejected
  with \<open>'Already fully paid'\<close>. Nothing is written in either case.
\<close>

lemma completePayment_guards:
  assumes "orders st orderId = Some ord" and "user ord = uid"
  shows "(orderStatus ord \<noteq> ''delivered'' \<longrightarrow>
            completePayment st uid orderId = (Inl (AppError ''Order not delivered yet'' 400), st))
       \<and> (orderStatus ord = ''delivered'' \<and> paymentDue ord = 0 \<longrightarrow>
            completePayment st uid orderId = (Inl (AppError ''Already fully paid'' 400), st))"
  using assms by (simp add: completePayment_def Order_findOne_def)

text \<open>
  An order that was paid in full before its delivery (\<open>paymentDue = 0\<close>, status
  \<open>'shipped'\<close>) gets \<open>'Order not delivered yet'\<close>, not \<open>'Already fully paid'\<close>.
\<close>

lemma completePayment_paid_not_delivered:
  "completePayment (ex_state\<lparr>orders := [5 \<mapsto> ex_order\<lparr>orderStatus := ''shipped'', paymentDue := 0\<rparr>]\<rparr>) 1 5 =
     (Inl (AppError ''Order not delivered yet'' 400),
      ex_state\<lparr>orders := [5 \<mapsto> ex_order\<lparr>orderStatus := ''shipped'', paymentDue := 0\<rparr>]\<rparr>)"
  by (simp add: completePayment_def Order_findOne_def ex_state_def ex_order_def)

text \<open>
  \<open>order.save()\<close> validates the whole document. A delivered order that owes 75
  and whose \<open>paymentInfo.status\<close> is \<open>'failed'\<close> (a status of Payment that the
  Payment hook copies into the order, and that the Order schema does not allow)
  is rejected by the validation: no payment is created and the order still
  owes 75.
\<close>

lemma completePayment_invalid_document:
  "completePayment
     (ex_state\<lparr>orders := [5 \<mapsto> ex_order\<lparr>orderStatus := ''delivered'',
                  paymentInfo := (paymentInfo ex_order)\<lparr>pi_status := ''failed''\<rparr>\<rparr>]\<rparr>) 1 5 =
     (Inl (ValidationError ''not a valid enum value for path paymentInfo.status''),
      ex_state\<lparr>orders := [5 \<mapsto> ex_order\<lparr>orderStatus := ''delivered'',
                  paymentInfo := (paymentInfo ex_order)\<lparr>pi_status := ''failed''\<rparr>\<rparr>]\<rparr>)"
  by (simp add: completePayment_def Order_findOne_def Let_def Order_save_def Order_validate_def
      order_statuses_def paymentInfo_methods_def paymentInfo_statuses_def
      ex_state_def ex_order_def ex_item_def)

text \<open>
  Claim C4 at the scenario of the specification, once the order is delivered:
  the owner completes the payment of the 75 that are due. The call returns 75,
  the order is stored with \<open>paymentDue = 0\<close>, and exactly one Payment is
  appended, but that Payment has no amount: the service passes
  \<open>amount: remaining\<close> to \<open>Payment.create\<close>, the Payment schema declares no such
  path, and the stored document holds the order, the user and the status only.
  The Payment hook also moves the order from \<open>'delivered'\<close> back to
  \<open>'processing'\<close>.
\<close>

theorem completePayment_scenario:
  "\<exists>st' ord'.
     completePayment ex_delivered 1 5 = (Inr 75, st')
     \<and> orders st' 5 = Some ord' \<and> paymentDue ord' = 0 \<and> orderStatus ord' = ''processing''
     \<and> payments st' =
         [ex_payment,
          \<lparr>pay_order = Some 5, pay_user = 1, paymentDetails_amount = None, pay_status = ''paid''\<rparr>]"
  by (simp add: completePayment_def Order_findOne_def Let_def Order_save_def Order_validate_def
      order_statuses_def paymentInfo_methods_def paymentInfo_statuses_def
      Payment_create_def Payment_new_def Payment_validate_def payment_statuses_def
      Payment_preSave_def Order_findByIdAndUpdate_def
      ex_delivered_def ex_state_def ex_order_def ex_item_def)

text \<open>
  The guard of \<open>cancelOrder\<close> on its own: an order whose status is \<open>'cancelled'\<close> is
  rejected before anything is written.
\<close>

lemma cancelOrder_already_cancelled:
  assumes "orders st orderId = Some ord" and "user ord = uid"
    and "orderStatus ord = ''cancelled''"
  shows "cancelOrder now st uid orderId = (Inl (AppError ''Order already cancelled'' 400), st)"
  using assms by (simp add: cancelOrder_def Order_findOne_def)

text \<open>
  Claim C10 at a concrete input. The owner cancels the order of the scenario one
  hour after it was placed, and again one hour later. The first call leaves the
  order with status \<open>'refunded'\<close>, not \<open>'cancelled'\<close>: the Payment that records the
  refund is created with status \<open>'refunded'\<close>, and the pre-save hook of Payment
  writes that into the order. The guard of the second call therefore does not
  apply, and the second call returns a second refund of 73.50 and appends a
  second refund Payment. (The stored Payments hold the order, the user and the
  status; the amount is what the calls return.)
\<close>

theorem cancelOrder_twice_refunds_twice:
  "\<exists>st1 st2 ord1.
     cancelOrder 3600000 ex_state 1 5 = (Inr 73.5, st1)
     \<and> orders st1 5 = Some ord1 \<and> orderStatus ord1 = ''refunded''
     \<and> cancelOrder 7200000 st1 1 5 = (Inr 73.5, st2)
     \<and> payments st2 =
         [ex_payment,
          \<lparr>pay_order = Some 5, pay_user = 1, paymentDetails_amount = None, pay_status = ''refunded''\<rparr>,
          \<lparr>pay_order = Some 5, pay_user = 1, paymentDetails_amount = None, pay_status = ''refunded''\<rparr>]"
  by (simp add: cancelOrder_def Order_findOne_def Let_def Order_save_def Order_validate_def
      order_statuses_def paymentInfo_methods_def paymentInfo_statuses_def
      Payment_create_def Payment_new_def Payment_validate_def payment_statuses_def
      Payment_preSave_def Order_findByIdAndUpdate_def ex_state_def ex_order_def ex_item_def)

text \<open>
  Claim C2 at the scenario of the specification: the order of 3 units (stock 7,
  sold 3 after the reservation, 75 paid) is cancelled by its owner one hour after
  it was placed. The call returns the refund 73.50 = 0.98 * 75 and appends
  exactly one refund Payment, but the product still has stock 7 and sold 3, and
  the order ends with status \<open>'refunded'\<close>. \<open>cancelOrder\<close> stores the order with
  \<open>save()\<close>, and the hook that restores the stock listens to \<open>findOneAndUpdate\<close>
  only. The refund Payment, like every Payment the service creates, is stored
  without its amount.
\<close>

theorem cancelOrder_scenario:
  "\<exists>st' ord'.
     cancelOrder 3600000 ex_state 1 5 = (Inr 73.5, st')
     \<and> products st' 1 = Some \<lparr>p_name = ''Widget'', p_price = 50, stock = 7, sold = 3, isActive = True\<rparr>
     \<and> orders st' 5 = Some ord' \<and> orderStatus ord' = ''refunded''
     \<and> payments st' =
         [ex_payment,
          \<lparr>pay_order = Some 5, pay_user = 1, paymentDetails_amount = None, pay_status = ''refunded''\<rparr>]"
  by (simp add: cancelOrder_def Order_findOne_def Let_def Order_save_def Order_validate_def
      order_statuses_def paymentInfo_methods_def paymentInfo_statuses_def
      Payment_create_def Payment_new_def Payment_validate_def payment_statuses_def
      Payment_preSave_def Order_findByIdAndUpdate_def ex_state_def ex_order_def ex_item_def)

text \<open>
  The restock hook does restore the counters when it runs, that is when an
  order is cancelled through \<open>findOneAndUpdate\<close>: on the same store it brings the
  product back to stock 10 and sold 0.
\<close>

lemma restock_hook_restores:
  "\<exists>st'. Order_findByIdAndUpdate ex_state (Some 5)
            \<lparr>upd_paymentInfo_status = ''refunded'', upd_orderStatus = Some ''cancelled''\<rparr> = (None, st')
     \<and> products st' 1 = Some \<lparr>p_name = ''Widget'', p_price = 50, stock = 10, sold = 0, isActive = True\<rparr>"
  by (simp add: Order_findByIdAndUpdate_def restockItem_def Product_save_def ex_state_def
      ex_order_def ex_item_def)

section \<open>Properties of createOrder\<close>

text \<open>
  \<open>createOrder\<close> creates the initial Payment before the order exists, without an
  \<open>order\<close>, and the Payment schema requires one. So every call that gets as far as
  the payment fails there; the calls that fail earlier (cart or products missing)
  have written nothing either. No call creates an order or changes the store.
\<close>

lemma createOrder_never_succeeds:
  "\<exists>e. createOrder now oid st uid prods cartId pinfo = (Inl e, st)"
  by (auto simp add: createOrder_def Payment_create_def Payment_new_def Payment_validate_def Let_def
      split: sum.splits option.splits)

text \<open>
  The pre-save hook of Payment alone would stop the call as well: it updates the
  order of the payment, and a payment without an order has none to update.
\<close>

lemma Payment_preSave_without_order:
  "pay_order p = None \<Longrightarrow> Payment_preSave st p = (Some (AppError ''Order not found'' 404), st)"
  by (simp add: Payment_preSave_def Order_findByIdAndUpdate_def)

text \<open>
  Were the payment step passed, the reservation would be written twice: once by
  the pre-save hook of Order and once more by the \<open>$inc\<close> loop of the service.
  On the scenario the two steps leave stock 4 and sold 6.
\<close>

lemma reservation_written_twice:
  "\<exists>st1 st2.
     reserveStock ex_fresh [ex_item] = (None, st1)
     \<and> products st1 1 = Some \<lparr>p_name = ''Widget'', p_price = 50, stock = 7, sold = 3, isActive = True\<rparr>
     \<and> stockLoop st1 [ex_item] = (None, st2)
     \<and> products st2 1 = Some \<lparr>p_name = ''Widget'', p_price = 50, stock = 4, sold = 6, isActive = True\<rparr>"
  by (simp add: reserveStock_def reserveItem_def Product_save_def Product_inc_def
      ex_fresh_def ex_item_def)

text \<open>
  The hook does not roll back either: with 3 units of product 1 (stock 10) and 9
  units of product 2 (stock 5) it fails with the InventoryError of product 2,
  and product 1 stays reserved.
\<close>

lemma reservation_partial_on_failure:
  "\<exists>st'. reserveStock ex_guests
            [ex_item, \<lparr>product = 2, oi_name = ''Gadget'', quantity = 9, price = 20\<rparr>] =
            (Some (InventoryError 2 9 5), st')
     \<and> products st' 1 = Some \<lparr>p_name = ''Widget'', p_price = 50, stock = 7, sold = 3, isActive = True\<rparr>"
  by (simp add: reserveStock_def reserveItem_def Product_save_def ex_guests_def ex_item_def)

text \<open>
  Claim C1 at the scenario of the specification (stock 10, price 50, 3 units in
  the cart of user 1, order placed from the cart): \<open>createOrder\<close> throws the
  validation error of the Payment schema. No order is created and the store is
  the one before the call, with stock 10 and sold 0.
\<close>

theorem createOrder_scenario:
  "createOrder 0 5 ex_fresh 1 [] (Some 9) \<lparr>req_method = ''card'', req_paidAmount = 75\<rparr> =
     (Inl (ValidationError ''Payment must belong to an order''), ex_fresh)
   \<and> products ex_fresh 1 = Some \<lparr>p_name = ''Widget'', p_price = 50, stock = 10, sold = 0, isActive = True\<rparr>
   \<and> orders ex_fresh 5 = None"
  by (simp add: createOrder_def Payment_create_def Payment_new_def Payment_validate_def Let_def
      Cart_findById_def ex_fresh_def ex_cart_def)

text \<open>
  The initial payment that \<open>createOrder\<close> hands to \<open>Payment.create\<close> is computed
  from the items alone, as half of their total; on the item of the scenario it
  is 75.
\<close>

lemma initial_payment_is_half:
  "totalAmount [ex_item] * 0.5 = 75"
  by (simp add: totalAmount_def ex_item_def)

text \<open>
  Claim C3 at a concrete input: user 1 orders 3 units at 50, a total of 150, and
  declares an upfront payment of 0. The service has no check of the declared
  amount: the call does fail, and writes nothing, but with the validation error
  of the Payment schema that every call meets, and the call that declares the
  whole 150 fails in exactly the same way.
\<close>

theorem createOrder_no_insufficient_payment_check:
  "totalAmount [ex_item] = 150
   \<and> createOrder 0 5 ex_fresh 1 [ex_item] None \<lparr>req_method = ''card'', req_paidAmount = 0\<rparr> =
       (Inl (ValidationError ''Payment must belong to an order''), ex_fresh)
   \<and> createOrder 0 5 ex_fresh 1 [ex_item] None \<lparr>req_method = ''card'', req_paidAmount = 150\<rparr> =
       (Inl (ValidationError ''Payment must belong to an order''), ex_fresh)"
  by (simp add: createOrder_def Payment_create_def Payment_new_def Payment_validate_def Let_def
      totalAmount_def ex_item_def)

section \<open>Properties of CartService\<close>

subsection \<open>The checks of a cart, item by item\<close>

lemma findIndex_Some: "findIndex P xs = Some i \<Longrightarrow> i < length xs \<and> P (xs ! i)"
  by (induction xs arbitrary: i) (auto split: if_splits option.splits)

lemma Cart_preSave_None_iff:
  "Cart_preSave st xs = None \<longleftrightarrow>
     (\<forall>x \<in> set xs. \<exists>p. products st (productId x) = Some p \<and> ci_quantity x \<le> stock p)"
  by (induction xs) (auto split: option.splits)

lemma Cart_validate_None_iff:
  "Cart_validate xs = None \<longleftrightarrow> (\<forall>x \<in> set xs. 1 \<le> ci_quantity x \<and> 0.01 \<le> priceAtAddition x)"
  by (simp add: Cart_validate_def) (meson not_le)

lemma Cart_check_None_iff:
  "Cart_check st xs = None \<longleftrightarrow> Cart_validate xs = None \<and> Cart_preSave st xs = None"
  by (simp add: Cart_check_def split: option.splits)

lemma set_without_subset: "set (take i xs @ drop (Suc i) xs) \<subseteq> set xs"
  by (auto dest: in_set_takeD in_set_dropD)

subsection \<open>updateCartItemQuantity\<close>

text \<open>
  Claim C7 as stated fails in its first part: quantity 0 does not remove the
  item. The first statement of the service rejects it (\<open>!quantity\<close> holds for 0),
  as the route's schema does (\<open>min(1)\<close>); the cart keeps the item with its
  quantity 3.
\<close>

theorem updateCartItemQuantity_zero_fails:
  "Cart_findOne ex_fresh 1 = Some ex_cart
   \<and> findItem (items ex_cart) 1 = Some \<lparr>productId = 1, ci_name = ''Widget'', ci_quantity = 3, priceAtAddition = 50\<rparr>
   \<and> updateCartItemQuantity 10 ex_fresh (Some 1) None 1 0 = (Inl (AppError ''Invalid quantity'' 400), ex_fresh)"
  by (simp add: updateCartItemQuantity_def Cart_findOne_def findItem_def ex_fresh_def ex_cart_def)

text \<open>
  Claim C7 as amended. Let \<open>c\<close> be the caller's cart (found by user or by
  session). A quantity of 0 or less is rejected with
  \<open>AppError('Invalid quantity', 400)\<close> and nothing changes. For a positive quantity:
  if the cart has no item of the product, the service throws
  \<open>AppError('Item not found in cart', 404)\<close>; if it has one (the first at index
  \<open>i\<close>), the product exists, the stored items satisfy the schema and the other
  items pass the stock check of the save hook, then with a stock of at least 1
  the item's quantity becomes \<open>min(quantity, stock)\<close> and nothing else in the cart
  changes, and with a stock of 0 the item is removed.
\<close>

theorem updateCartItemQuantity_cases:
  assumes "getOrCreateCart newCid st uid sid = (c, st)"
  shows "(qty \<le> 0 \<longrightarrow>
            updateCartItemQuantity newCid st uid sid pid qty = (Inl (AppError ''Invalid quantity'' 400), st))
       \<and> (0 < qty \<and> findIndex (\<lambda>item. productId item = pid) (items c) = None \<longrightarrow>
            updateCartItemQuantity newCid st uid sid pid qty = (Inl (AppError ''Item not found in cart'' 404), st))
       \<and> (0 < qty \<and> findIndex (\<lambda>item. productId item = pid) (items c) = Some i
            \<and> products st pid = Some p \<and> Cart_validate (items c) = None
            \<and> Cart_preSave st (take i (items c) @ drop (Suc i) (items c)) = None \<longrightarrow>
            (1 \<le> stock p \<longrightarrow>
               updateCartItemQuantity newCid st uid sid pid qty =
                 (let c' = c\<lparr>items := (items c)[i := (items c ! i)\<lparr>ci_quantity := min qty (stock p)\<rparr>]\<rparr>
                  in (Inr c', st\<lparr>carts := map (\<lambda>d. if cid d = cid c then c' else d) (carts st)\<rparr>)))
          \<and> (stock p = 0 \<longrightarrow>
               updateCartItemQuantity newCid st uid sid pid qty =
                 (let c' = c\<lparr>items := take i (items c) @ drop (Suc i) (items c)\<rparr>
                  in (Inr c', st\<lparr>carts := map (\<lambda>d. if cid d = cid c then c' else d) (carts st)\<rparr>))))"
proof (intro conjI impI)
  assume "qty \<le> 0"
  then show "updateCartItemQuantity newCid st uid sid pid qty = (Inl (AppError ''Invalid quantity'' 400), st)"
    by (auto simp add: updateCartItemQuantity_def)
next
  assume "0 < qty \<and> findIndex (\<lambda>item. productId item = pid) (items c) = None"
  then show "updateCartItemQuantity newCid st uid sid pid qty = (Inl (AppError ''Item not found in cart'' 404), st)"
    using assms by (simp add: updateCartItemQuantity_def)
next
  assume H: "0 < qty \<and> findIndex (\<lambda>item. productId item = pid) (items c) = Some i
            \<and> products st pid = Some p \<and> Cart_validate (items c) = None
            \<and> Cart_preSave st (take i (items c) @ drop (Suc i) (items c)) = None"
    and S: "1 \<le> stock p"
  let ?xs = "items c"
  let ?n = "min qty (stock p)"
  let ?c' = "c\<lparr>items := ?xs[i := (?xs ! i)\<lparr>ci_quantity := ?n\<rparr>]\<rparr>"
  from H have i: "i < length ?xs" "productId (?xs ! i) = pid" using findIndex_Some by fastforce+
  have n: "1 \<le> ?n" "?n \<le> stock p" "?n \<noteq> 0" using H S by auto
  have upd: "?xs[i := (?xs ! i)\<lparr>ci_quantity := ?n\<rparr>] = take i ?xs @ (?xs ! i)\<lparr>ci_quantity := ?n\<rparr> # drop (Suc i) ?xs"
    using i by (simp add: upd_conv_take_nth_drop)
  have mem: "?xs ! i \<in> set ?xs" using i by simp
  have val: "Cart_validate (items ?c') = None"
    using H mem set_without_subset[of i ?xs] n(1) unfolding Cart_validate_None_iff
    by (simp only: cart.simps upd) (auto simp del: min_less_iff_conj)
  have pre: "Cart_preSave st (items ?c') = None"
    using H i n(2) unfolding Cart_preSave_None_iff
    by (simp only: cart.simps upd) auto
  have chk: "Cart_check st (items ?c') = None" using val pre by (simp add: Cart_check_None_iff)
  show "updateCartItemQuantity newCid st uid sid pid qty =
                 (let c' = c\<lparr>items := (items c)[i := (items c ! i)\<lparr>ci_quantity := min qty (stock p)\<rparr>]\<rparr>
                  in (Inr c', st\<lparr>carts := map (\<lambda>d. if cid d = cid c then c' else d) (carts st)\<rparr>))"
    using H assms chk n(3)
    by (simp add: updateCartItemQuantity_def Cart_save_def Let_def)
next
  assume H: "0 < qty \<and> findIndex (\<lambda>item. productId item = pid) (items c) = Some i
            \<and> products st pid = Some p \<and> Cart_validate (items c) = None
            \<and> Cart_preSave st (take i (items c) @ drop (Suc i) (items c)) = None"
    and S: "stock p = 0"
  let ?xs = "items c"
  let ?c' = "c\<lparr>items := take i ?xs @ drop (Suc i) ?xs\<rparr>"
  have n: "min qty (stock p) = 0" using H S by auto
  have val: "Cart_validate (items ?c') = None"
    using H set_without_subset[of i ?xs] unfolding Cart_validate_None_iff by auto
  have chk: "Cart_check st (items ?c') = None" using val H by (simp add: Cart_check_None_iff)
  show "updateCartItemQuantity newCid st uid sid pid qty =
                 (let c' = c\<lparr>items := take i (items c) @ drop (Suc i) (items c)\<rparr>
                  in (Inr c', st\<lparr>carts := map (\<lambda>d. if cid d = cid c then c' else d) (carts st)\<rparr>))"
    using H assms chk n
    by (simp add: updateCartItemQuantity_def Cart_save_def Let_def)
qed

theorem updateCartItemQuantity_cases_witness:
  "updateCartItemQuantity 10 ex_fresh (Some 1) None 1 20 =
     (Inr (ex_cart\<lparr>items := [\<lparr>productId = 1, ci_name = ''Widget'', ci_quantity = 10, priceAtAddition = 50\<rparr>]\<rparr>),
      ex_fresh\<lparr>carts := [ex_cart\<lparr>items := [\<lparr>productId = 1, ci_name = ''Widget'', ci_quantity = 10, priceAtAddition = 50\<rparr>]\<rparr>]\<rparr>)"
proof -
  have g: "getOrCreateCart 10 ex_fresh (Some 1) None = (ex_cart, ex_fresh)"
    by (simp add: getOrCreateCart_def Cart_findOne_def ex_fresh_def ex_cart_def)
  show ?thesis
    using updateCartItemQuantity_cases [OF g, of 20 1 0
        "\<lparr>p_name = ''Widget'', p_price = 50, stock = 10, sold = 0, isActive = True\<rparr>"]
    by (simp add: ex_fresh_def ex_cart_def Cart_validate_def Let_def)
qed

subsection \<open>mergeCarts\<close>

lemma findItem_mergeItem:
  "findItem (mergeItem us g) pid =
     (if productId g = pid
      then (case findItem us pid of
              Some a \<Rightarrow> Some (a\<lparr>ci_quantity := ci_quantity a + ci_quantity g\<rparr>)
            | None \<Rightarrow> Some g)
      else findItem us pid)"
  by (induction us) (auto simp add: findItem_def)

lemma findItem_None_iff: "findItem its pid = None \<longleftrightarrow> pid \<notin> productId ` set its"
  by (auto simp add: findItem_def find_None_iff)

lemma findItem_foldl_mergeItem:
  "distinct (map productId gs) \<Longrightarrow>
   findItem (foldl mergeItem us gs) pid =
     (case findItem gs pid of
        None \<Rightarrow> findItem us pid
      | Some b \<Rightarrow>
          (case findItem us pid of
             Some a \<Rightarrow> Some (a\<lparr>ci_quantity := ci_quantity a + ci_quantity b\<rparr>)
           | None \<Rightarrow> Some b))"
proof (induction gs arbitrary: us)
  case Nil
  then show ?case by (simp add: findItem_def)
next
  case (Cons g gs)
  then have d: "distinct (map productId gs)" and n: "productId g \<notin> productId ` set gs" by auto
  show ?case
  proof (cases "productId g = pid")
    case True
    with n have "findItem gs pid = None" by (simp add: findItem_None_iff)
    moreover have "findItem (g # gs) pid = Some g" using True by (simp add: findItem_def)
    ultimately show ?thesis
      using Cons.IH[OF d, of "mergeItem us g"] True
      by (simp add: findItem_mergeItem)
  next
    case False
    then have "findItem (g # gs) pid = findItem gs pid" by (simp add: findItem_def)
    then show ?thesis
      using Cons.IH[OF d, of "mergeItem us g"] False
      by (simp add: findItem_mergeItem split: option.splits)
  qed
qed

lemma find_replaced_kept:
  "find P xs = Some c \<Longrightarrow> P c' \<Longrightarrow> Q c' \<Longrightarrow>
   find P (filter Q (map (\<lambda>d. if cid d = cid c then c' else d) xs)) = Some c'"
  by (induction xs) (auto split: if_splits)

lemma find_appended_kept:
  "find P xs = None \<Longrightarrow> P c' \<Longrightarrow> find P (filter Q xs @ [c']) = Some c'"
  by (induction xs) (auto split: if_splits)

lemma Cart_findOne_userId: "Cart_findOne st u = Some c \<Longrightarrow> userId c = Some u"
  by (auto simp add: Cart_findOne_def find_Some_iff)

text \<open>
  Claim C6 as stated fails: the guest cart is not deleted in every case and the
  quantities do not always add. Guest cart 7 has no items: the service returns
  \<open>'Guest cart is empty'\<close> before it reaches the delete, and cart 7 stays in the
  store. Guest cart 8 holds 8 units of a product of which the user's cart holds
  3 and the stock is 10: the save hook of Cart rejects the sum 11, the service
  throws, the user's cart keeps 3 and cart 8 stays in the store.
\<close>

theorem mergeCarts_guest_cart_kept:
  "mergeCarts 10 ex_guests 1 (Some 7) = (Inr GuestCartEmpty, ex_guests)
   \<and> Cart_findById ex_guests 7 = Some ex_guest7
   \<and> mergeCarts 10 ex_guests 1 (Some 8) = (Inl (AppError ''Insufficient stock'' 400), ex_guests)
   \<and> Cart_findById ex_guests 8 = Some ex_guest8
   \<and> Cart_findOne ex_guests 1 = Some ex_cart"
  by (simp add: mergeCarts_def Cart_findById_def Cart_findOne_def Cart_save_def Cart_check_def
      Cart_validate_def ex_guests_def ex_cart_def ex_guest6_def ex_guest7_def ex_guest8_def)

text \<open>
  Claim C6 as amended. Let the guest cart \<open>g\<close> have at least one item.
  \<^item> If the user has a cart \<open>c\<close> (another document than \<open>g\<close>, possibly without
    items), \<open>g\<close> has at most one item per product, and the merged items pass the
    checks of \<open>save\<close> (every product exists with a stock of at least the merged
    quantity), then \<open>mergeCarts\<close> succeeds, the guest cart is gone, and in the
    user's cart every product that was in both carts has the sum of the two
    quantities and every product that was only in the guest cart has the guest's
    item unchanged.
  \<^item> If the user has no cart and the guest items pass the checks, the user gets a
    new cart with exactly the guest items and the guest cart is gone.
  \<^item> If the checks reject the merged items, \<open>mergeCarts\<close> throws their error and
    the store is unchanged.
\<close>

theorem mergeCarts_cases:
  "(Cart_findById st gid = Some g \<and> items g \<noteq> [] \<and> distinct (map productId (items g))
       \<and> Cart_findOne st u = Some c \<and> cid c \<noteq> gid
       \<and> Cart_check st (foldl mergeItem (items c) (items g)) = None \<longrightarrow>
      (\<exists>c' st'. mergeCarts newCid st u (Some gid) = (Inr (Merged c'), st')
         \<and> Cart_findOne st' u = Some c' \<and> Cart_findById st' gid = None
         \<and> (\<forall>pid a b. findItem (items c) pid = Some a \<and> findItem (items g) pid = Some b \<longrightarrow>
               findItem (items c') pid = Some (a\<lparr>ci_quantity := ci_quantity a + ci_quantity b\<rparr>))
         \<and> (\<forall>pid b. findItem (items c) pid = None \<and> findItem (items g) pid = Some b \<longrightarrow>
               findItem (items c') pid = Some b)))
   \<and> (Cart_findById st gid = Some g \<and> items g \<noteq> []
       \<and> Cart_findOne st u = None \<and> newCid \<noteq> gid \<and> Cart_check st (items g) = None \<longrightarrow>
      (\<exists>c' st'. mergeCarts newCid st u (Some gid) = (Inr (Merged c'), st')
         \<and> Cart_findOne st' u = Some c' \<and> Cart_findById st' gid = None
         \<and> items c' = items g))
   \<and> (Cart_findById st gid = Some g \<and> items g \<noteq> []
       \<and> Cart_findOne st u = Some c
       \<and> Cart_check st (foldl mergeItem (items c) (items g)) = Some e \<longrightarrow>
      mergeCarts newCid st u (Some gid) = (Inl e, st))"
proof (intro conjI impI)
  assume H: "Cart_findById st gid = Some g \<and> items g \<noteq> [] \<and> distinct (map productId (items g))
       \<and> Cart_findOne st u = Some c \<and> cid c \<noteq> gid
       \<and> Cart_check st (foldl mergeItem (items c) (items g)) = None"
  let ?c' = "c\<lparr>items := foldl mergeItem (items c) (items g)\<rparr>"
  let ?st' = "Cart_findByIdAndDelete (st\<lparr>carts := map (\<lambda>d. if cid d = cid c then ?c' else d) (carts st)\<rparr>) gid"
  from H have u: "userId c = Some u" using Cart_findOne_userId by blast
  have r: "mergeCarts newCid st u (Some gid) = (Inr (Merged ?c'), ?st')"
    using H by (simp add: mergeCarts_def Cart_save_def Let_def)
  have f1: "Cart_findOne ?st' u = Some ?c'"
    using H u by (simp add: Cart_findOne_def Cart_findByIdAndDelete_def find_replaced_kept)
  have f2: "Cart_findById ?st' gid = None"
    by (simp add: Cart_findById_def Cart_findByIdAndDelete_def find_None_iff)
  have q: "\<And>pid. findItem (items ?c') pid =
     (case findItem (items g) pid of
        None \<Rightarrow> findItem (items c) pid
      | Some b \<Rightarrow>
          (case findItem (items c) pid of
             Some a \<Rightarrow> Some (a\<lparr>ci_quantity := ci_quantity a + ci_quantity b\<rparr>)
           | None \<Rightarrow> Some b))"
    using H by (simp add: findItem_foldl_mergeItem)
  show "\<exists>c' st'. mergeCarts newCid st u (Some gid) = (Inr (Merged c'), st')
         \<and> Cart_findOne st' u = Some c' \<and> Cart_findById st' gid = None
         \<and> (\<forall>pid a b. findItem (items c) pid = Some a \<and> findItem (items g) pid = Some b \<longrightarrow>
               findItem (items c') pid = Some (a\<lparr>ci_quantity := ci_quantity a + ci_quantity b\<rparr>))
         \<and> (\<forall>pid b. findItem (items c) pid = None \<and> findItem (items g) pid = Some b \<longrightarrow>
               findItem (items c') pid = Some b)"
    using r f1 f2 q by (intro exI[of _ ?c'] exI[of _ ?st']) simp
next
  assume H: "Cart_findById st gid = Some g \<and> items g \<noteq> []
       \<and> Cart_findOne st u = None \<and> newCid \<noteq> gid \<and> Cart_check st (items g) = None"
  let ?c' = "\<lparr>cid = newCid, userId = Some u, items = items g\<rparr>"
  let ?st' = "Cart_findByIdAndDelete (st\<lparr>carts := carts st @ [?c']\<rparr>) gid"
  have r: "mergeCarts newCid st u (Some gid) = (Inr (Merged ?c'), ?st')"
    using H by (simp add: mergeCarts_def Cart_create_def Let_def)
  have f1: "Cart_findOne ?st' u = Some ?c'"
    using H by (simp add: Cart_findOne_def Cart_findByIdAndDelete_def find_appended_kept)
  have f2: "Cart_findById ?st' gid = None"
    using H by (auto simp add: Cart_findById_def Cart_findByIdAndDelete_def find_None_iff)
  show "\<exists>c' st'. mergeCarts newCid st u (Some gid) = (Inr (Merged c'), st')
         \<and> Cart_findOne st' u = Some c' \<and> Cart_findById st' gid = None
         \<and> items c' = items g"
    using r f1 f2 by (intro exI[of _ ?c'] exI[of _ ?st']) simp
next
  assume "Cart_findById st gid = Some g \<and> items g \<noteq> []
       \<and> Cart_findOne st u = Some c
       \<and> Cart_check st (foldl mergeItem (items c) (items g)) = Some e"
  then show "mergeCarts newCid st u (Some gid) = (Inl e, st)"
    by (simp add: mergeCarts_def Cart_save_def Let_def)
qed

theorem mergeCarts_cases_witness:
  "\<exists>c' st'. mergeCarts 10 ex_guests 1 (Some 6) = (Inr (Merged c'), st')
     \<and> Cart_findOne st' 1 = Some c' \<and> Cart_findById st' 6 = None
     \<and> findItem (items c') 1 = Some \<lparr>productId = 1, ci_name = ''Widget'', ci_quantity = 5, priceAtAddition = 50\<rparr>
     \<and> findItem (items c') 2 = Some \<lparr>productId = 2, ci_name = ''Gadget'', ci_quantity = 1, priceAtAddition = 20\<rparr>"
proof -
  have h: "Cart_findById ex_guests 6 = Some ex_guest6 \<and> items ex_guest6 \<noteq> []
       \<and> distinct (map productId (items ex_guest6))
       \<and> Cart_findOne ex_guests 1 = Some ex_cart \<and> cid ex_cart \<noteq> 6
       \<and> Cart_check ex_guests (foldl mergeItem (items ex_cart) (items ex_guest6)) = None"
    by (simp add: Cart_findById_def Cart_findOne_def Cart_check_def Cart_validate_def
        ex_guests_def ex_cart_def ex_guest6_def ex_guest7_def ex_guest8_def)
  have a: "findItem (items ex_cart) 1 = Some \<lparr>productId = 1, ci_name = ''Widget'', ci_quantity = 3, priceAtAddition = 50\<rparr>
         \<and> findItem (items ex_guest6) 1 = Some \<lparr>productId = 1, ci_name = ''Widget'', ci_quantity = 2, priceAtAddition = 50\<rparr>"
    by (simp add: findItem_def ex_cart_def ex_guest6_def)
  have b: "findItem (items ex_cart) 2 = None
         \<and> findItem (items ex_guest6) 2 = Some \<lparr>productId = 2, ci_name = ''Gadget'', ci_quantity = 1, priceAtAddition = 20\<rparr>"
    by (simp add: findItem_def ex_cart_def ex_guest6_def)
  from mergeCarts_cases [of ex_guests 6 ex_guest6 1 ex_cart 10] h
  obtain c' st' where r: "mergeCarts 10 ex_guests 1 (Some 6) = (Inr (Merged c'), st')"
      "Cart_findOne st' 1 = Some c'" "Cart_findById st' 6 = None"
      "\<forall>pid a b. findItem (items ex_cart) pid = Some a \<and> findItem (items ex_guest6) pid = Some b \<longrightarrow>
               findItem (items c') pid = Some (a\<lparr>ci_quantity := ci_quantity a + ci_quantity b\<rparr>)"
      "\<forall>pid b. findItem (items ex_cart) pid = None \<and> findItem (items ex_guest6) pid = Some b \<longrightarrow>
               findItem (items c') pid = Some b"
    by blast
  from r(4) a have "findItem (items c') 1 = Some \<lparr>productId = 1, ci_name = ''Widget'', ci_quantity = 5, priceAtAddition = 50\<rparr>"
    by fastforce
  moreover from r(5) b have "findItem (items c') 2 = Some \<lparr>productId = 2, ci_name = ''Gadget'', ci_quantity = 1, priceAtAddition = 20\<rparr>"
    by blast
  ultimately show ?thesis using r(1-3) by blast
qed

section \<open>Properties of the monthly sales reports\<close>

lemma remdups_map_inj: "inj f \<Longrightarrow> remdups (map f xs) = map f (remdups xs)"
  by (induction xs) (auto simp add: inj_image_mem_iff)

lemma sort_map_Pair:
  assumes "distinct ks"
  shows "sort (map (Pair y) ks) = map (Pair (y::int)) (sort (ks::int list))"
proof (rule sorted_distinct_set_unique)
  show "sorted (sort (map (Pair y) ks))" by simp
  show "distinct (sort (map (Pair y) ks))" using assms by (simp add: distinct_map inj_on_def)
  show "sorted (map (Pair y) (sort ks))"
    using sorted_sort[of ks] by (simp add: sorted_map sorted_wrt_mono_rel[of _ "(\<le>)"] less_eq_prod_def)
  show "distinct (map (Pair y) (sort ks))" using assms by (simp add: distinct_map inj_on_def)
  show "set (sort (map (Pair y) ks)) = set (map (Pair y) (sort ks))" by simp
qed

lemma groupRows_same_year:
  assumes "\<forall>d \<in> set docs. fst (key1 d) = (y::int)"
  shows "groupRows key1 docs =
         map (\<lambda>(m, t, c). ((y, m), t, c)) (groupRows (\<lambda>d. snd (key1 d) :: int) docs)"
proof -
  have k: "\<And>d. d \<in> set docs \<Longrightarrow> key1 d = (y, snd (key1 d))"
    using assms by (metis prod.collapse)
  then have "map key1 docs = map (Pair y) (map (\<lambda>d. snd (key1 d)) docs)" by simp
  then have keys: "sort (remdups (map key1 docs)) =
      map (Pair y) (sort (remdups (map (\<lambda>d. snd (key1 d)) docs)))"
    by (simp add: remdups_map_inj inj_on_def sort_map_Pair del: map_map)
  have f: "\<And>m. filter (\<lambda>d. key1 d = (y, m)) docs = filter (\<lambda>d. snd (key1 d) = m) docs"
    by (rule filter_cong) (use k in auto)
  show ?thesis
    unfolding groupRows_def keys by (simp add: f o_def)
qed

text \<open>
  Claim C5 as stated fails: the two reports neither select the same orders nor
  group them the same way. A delivered order that still owes 75 is in the
  report of the model and not in the report of the service. Two delivered and
  paid orders of January 1970 and January 1971 are two rows of 150 in the report
  of the model and one row of 300 in the report of the service.
\<close>

theorem monthly_sales_differ:
  "Order_getMonthlySales ex_unpaid = [\<lparr>year = 1970, month = 1, totalSales = 150, count = 1\<rparr>]
   \<and> getMonthlySales ex_unpaid = []
   \<and> Order_getMonthlySales ex_two_years =
       [\<lparr>year = 1970, month = 1, totalSales = 150, count = 1\<rparr>,
        \<lparr>year = 1971, month = 1, totalSales = 150, count = 1\<rparr>]
   \<and> getMonthlySales ex_two_years = [\<lparr>sr_id = 1, total = 300, sr_count = 2\<rparr>]"
  by code_simp

text \<open>
  Claim C5 as amended. On a collection in which an order is delivered exactly
  when its \<open>paymentDue\<close> is 0 and in which all delivered orders were created in
  the same year, the two reports select the same orders and have, month by
  month, the same sum of \<open>totalPrice\<close> and the same count (the model reports
  them as \<open>month\<close>, \<open>totalSales\<close>, \<open>count\<close>, the service as \<open>_id\<close>, \<open>total\<close>,
  \<open>count\<close>).
\<close>

theorem monthly_sales_agree:
  assumes "\<forall>d \<in> set docs. orderStatus d = ''delivered'' \<longleftrightarrow> paymentDue d = 0"
    and "\<forall>d \<in> set docs. orderStatus d = ''delivered'' \<longrightarrow> fst (utcYearMonth (createdAt d)) = y"
  shows "filter (\<lambda>d. orderStatus d = ''delivered'') docs = filter (\<lambda>d. paymentDue d = 0) docs
       \<and> map (\<lambda>r. (month r, totalSales r, count r)) (Order_getMonthlySales docs) =
         map (\<lambda>r. (sr_id r, total r, sr_count r)) (getMonthlySales docs)"
proof -
  have sel: "filter (\<lambda>d. orderStatus d = ''delivered'') docs = filter (\<lambda>d. paymentDue d = 0) docs"
    by (rule filter_cong) (use assms(1) in auto)
  have yr: "\<forall>d \<in> set (filter (\<lambda>d. paymentDue d = 0) docs). fst (utcYearMonth (createdAt d)) = y"
    using assms by auto
  show ?thesis
    unfolding Order_getMonthlySales_def getMonthlySales_def sel
      groupRows_same_year[where ?key1.0 = "\<lambda>d. utcYearMonth (createdAt d)", OF yr]
    by (simp add: o_def split_def)
qed

theorem monthly_sales_agree_witness:
  "filter (\<lambda>d. orderStatus d = ''delivered'') ex_one_year = filter (\<lambda>d. paymentDue d = 0) ex_one_year
   \<and> map (\<lambda>r. (month r, totalSales r, count r)) (Order_getMonthlySales ex_one_year) =
     map (\<lambda>r. (sr_id r, total r, sr_count r)) (getMonthlySales ex_one_year)
   \<and> getMonthlySales ex_one_year =
       [\<lparr>sr_id = 1, total = 150, sr_count = 1\<rparr>, \<lparr>sr_id = 2, total = 150, sr_count = 1\<rparr>]"
proof -
  have h1: "\<forall>d \<in> set ex_one_year. orderStatus d = ''delivered'' \<longleftrightarrow> paymentDue d = 0"
    by code_simp
  have h2: "\<forall>d \<in> set ex_one_year. orderStatus d = ''delivered'' \<longrightarrow> fst (utcYearMonth (createdAt d)) = 1970"
    by code_simp
  have v: "getMonthlySales ex_one_year =
       [\<lparr>sr_id = 1, total = 150, sr_count = 1\<rparr>, \<lparr>sr_id = 2, total = 150, sr_count = 1\<rparr>]"
    by code_simp
  show ?thesis using monthly_sales_agree [OF h1 h2] v by simp
qed

end
